theory Spec2Isabelle
  imports Complex_Main "HOL-Library.Char_ord" "HOL-Library.List_Lexorder"
begin

section \<open>JavaScript values as the timesheet code uses them\<close>

text \<open>
  The rows and staging entries of the application are plain JavaScript objects whose
  properties hold primitives. A primitive is \<open>undefined\<close>, \<open>null\<close>, a boolean, a
  number or a string. Hours are whole numbers (the header comment of
  \<^verbatim>\<open>TimesheetApp.jsx\<close> says "Integer hours (0-24)"), so a number is an \<open>int\<close>:
  sums and differences of whole numbers below \<open>2^53\<close> are exact in the doubles of
  JavaScript. The only place where the code leaves the integers is the percentage of
  \<^verbatim>\<open>monthlyProportion\<close>, whose double-precision arithmetic is modelled where it is
  defined. Strings are byte lists (UTF-8).

  An object is a total function from property names to values: reading a property that
  was never set gives \<open>undefined\<close>, which is what \<open>JUndefined\<close> stands for.
\<close>

datatype jsval = JUndefined | JNull | JBool bool | JNum int | JStr string

type_synonym obj = "string \<Rightarrow> jsval"

definition emptyObj :: obj where
  "emptyObj = (\<lambda>k. JUndefined)"

text \<open>\<^verbatim>\<open>entry?.[d]\<close>: optional chaining reads \<open>undefined\<close> from \<open>null\<close> or
  \<open>undefined\<close> (here \<open>None\<close>) instead of raising.\<close>

definition optGet :: "obj option \<Rightarrow> string \<Rightarrow> jsval" where
  "optGet e k = (case e of None \<Rightarrow> JUndefined | Some ob \<Rightarrow> ob k)"

text \<open>Truthiness, and \<^verbatim>\<open>a || b\<close>.\<close>

fun truthy :: "jsval \<Rightarrow> bool" where
  "truthy JUndefined = False"
| "truthy JNull = False"
| "truthy (JBool b) = b"
| "truthy (JNum n) = (n \<noteq> 0)"
| "truthy (JStr s) = (s \<noteq> [])"

definition orElse :: "jsval \<Rightarrow> jsval \<Rightarrow> jsval" where
  "orElse a b = (if truthy a then a else b)"

subsection \<open>Text and numbers\<close>

text \<open>The blanks that \<^verbatim>\<open>Number\<close>, \<^verbatim>\<open>parseInt\<close> and \<^verbatim>\<open>trim\<close> skip are the white
  space and line terminator code points of the language, here in their UTF-8 encoding:
  U+0009 to U+000D, U+0020, U+00A0, U+1680, U+2000 to U+200A, U+2028, U+2029, U+202F,
  U+205F, U+3000 and U+FEFF.\<close>

definition blanks :: "string list" where
  "blanks =
     [[CHR 0x09], [CHR 0x0A], [CHR 0x0B], [CHR 0x0C], [CHR 0x0D], [CHR 0x20],
      [CHR 0xC2, CHR 0xA0], [CHR 0xE1, CHR 0x9A, CHR 0x80],
      [CHR 0xE2, CHR 0x80, CHR 0x80], [CHR 0xE2, CHR 0x80, CHR 0x81],
      [CHR 0xE2, CHR 0x80, CHR 0x82], [CHR 0xE2, CHR 0x80, CHR 0x83],
      [CHR 0xE2, CHR 0x80, CHR 0x84], [CHR 0xE2, CHR 0x80, CHR 0x85],
      [CHR 0xE2, CHR 0x80, CHR 0x86], [CHR 0xE2, CHR 0x80, CHR 0x87],
      [CHR 0xE2, CHR 0x80, CHR 0x88], [CHR 0xE2, CHR 0x80, CHR 0x89],
      [CHR 0xE2, CHR 0x80, CHR 0x8A], [CHR 0xE2, CHR 0x80, CHR 0xA8],
      [CHR 0xE2, CHR 0x80, CHR 0xA9], [CHR 0xE2, CHR 0x80, CHR 0xAF],
      [CHR 0xE2, CHR 0x81, CHR 0x9F], [CHR 0xE3, CHR 0x80, CHR 0x80],
      [CHR 0xEF, CHR 0xBB, CHR 0xBF]]"

text \<open>Dropping from the front of a text every leading occurrence of one of the given
  byte sequences.\<close>

function dropBlanks :: "string list \<Rightarrow> string \<Rightarrow> string" where
  "dropBlanks ws [] = []"
| "dropBlanks ws (c # cs) =
     (case find (\<lambda>w. w \<noteq> [] \<and> take (length w) (c # cs) = w) ws of
        None \<Rightarrow> c # cs
      | Some w \<Rightarrow> dropBlanks ws (drop (length w) (c # cs)))"
  by pat_completeness auto
termination
  by (relation "measure (\<lambda>(ws, s). length s)") (auto simp add: find_Some_iff)

definition digitVal :: "char \<Rightarrow> nat option" where
  "digitVal = map_of [(CHR ''0'', 0), (CHR ''1'', 1), (CHR ''2'', 2), (CHR ''3'', 3),
                      (CHR ''4'', 4), (CHR ''5'', 5), (CHR ''6'', 6), (CHR ''7'', 7),
                      (CHR ''8'', 8), (CHR ''9'', 9)]"

definition isDigit :: "char \<Rightarrow> bool" where
  "isDigit c = (digitVal c \<noteq> None)"

definition digitsVal :: "string \<Rightarrow> nat" where
  "digitsVal ds = foldl (\<lambda>acc c. 10 * acc + (case digitVal c of Some d \<Rightarrow> d | None \<Rightarrow> 0)) 0 ds"

text \<open>\<^verbatim>\<open>s.trim()\<close>: the blanks are dropped at both ends (at the end, the reversed
  encodings from the reversed text).\<close>

definition trim :: "string \<Rightarrow> string" where
  "trim s = rev (dropBlanks (map rev blanks) (rev (dropBlanks blanks s)))"

text \<open>An optional sign in front of a text: the factor and the rest.\<close>

fun signed :: "string \<Rightarrow> int \<times> string" where
  "signed [] = (1, [])"
| "signed (c # cs) =
     (if c = CHR ''-'' then (- 1, cs) else if c = CHR ''+'' then (1, cs) else (1, c # cs))"

text \<open>\<^verbatim>\<open>parseInt(s, 10)\<close>: leading blanks are skipped, a sign is read, then the
  longest run of decimal digits; with no digit the result is \<open>NaN\<close> (here \<open>None\<close>).\<close>

definition parseInt :: "string \<Rightarrow> int option" where
  "parseInt s =
     (let (sg, rest) = signed (dropBlanks blanks s);
          ds = takeWhile isDigit rest
      in if ds = [] then None else Some (sg * int (digitsVal ds)))"

text \<open>\<^verbatim>\<open>Number(s)\<close> on a string: blanks around the text are dropped, the empty text is
  0, a signed run of decimal digits is its value. Every other text is \<open>NaN\<close> in the
  model: text that spells a number outside the integers (a fraction, an exponent,
  a radix prefix, \<open>Infinity\<close>) is not a value of the integer model and is not among
  the values the application writes into a row.\<close>

definition strToNumber :: "string \<Rightarrow> int option" where
  "strToNumber s =
     (let t = trim s in
      if t = [] then Some 0
      else (let (sg, body) = signed t in
            if body \<noteq> [] \<and> list_all isDigit body then Some (sg * int (digitsVal body))
            else None))"

text \<open>\<^verbatim>\<open>Number(v)\<close>, with \<open>None\<close> for \<open>NaN\<close>.\<close>

fun toNumber :: "jsval \<Rightarrow> int option" where
  "toNumber JUndefined = None"
| "toNumber JNull = Some 0"
| "toNumber (JBool b) = Some (if b then 1 else 0)"
| "toNumber (JNum n) = Some n"
| "toNumber (JStr s) = strToNumber s"

text \<open>\<^verbatim>\<open>Number(v) || 0\<close>: \<open>NaN\<close> and 0 are both falsy, so the result is the number
  when there is one and 0 otherwise.\<close>

definition numOr0 :: "jsval \<Rightarrow> int" where
  "numOr0 v = (case toNumber v of None \<Rightarrow> 0 | Some n \<Rightarrow> n)"

text \<open>\<^verbatim>\<open>String(n)\<close> for a whole number, in decimal.\<close>

definition digitChar :: "nat \<Rightarrow> char" where
  "digitChar d = ''0123456789'' ! (d mod 10)"

fun showNat :: "nat \<Rightarrow> string" where
  "showNat n = (if n < 10 then [digitChar n] else showNat (n div 10) @ [digitChar (n mod 10)])"

declare showNat.simps [simp del]

definition showInt :: "int \<Rightarrow> string" where
  "showInt i = (if i < 0 then CHR ''-'' # showNat (nat (- i)) else showNat (nat i))"

text \<open>\<^verbatim>\<open>String(v)\<close>, which is also what a template literal does to a value.\<close>

fun toString :: "jsval \<Rightarrow> string" where
  "toString JUndefined = ''undefined''"
| "toString JNull = ''null''"
| "toString (JBool b) = (if b then ''true'' else ''false'')"
| "toString (JNum n) = showInt n"
| "toString (JStr s) = s"

text \<open>\<^verbatim>\<open>s.padStart(n, "0")\<close> with a pad of one character.\<close>

definition padStart :: "nat \<Rightarrow> char \<Rightarrow> string \<Rightarrow> string" where
  "padStart n c s = replicate (n - length s) c @ s"

definition toTwo :: "jsval \<Rightarrow> string" where
  "toTwo n = padStart 2 (CHR ''0'') (toString n)"

section \<open>Pure helpers of the timesheet\<close>

definition DAYS :: "string list" where
  "DAYS = [''Mon'', ''Tue'', ''Wed'', ''Thu'', ''Fri'']"


definition allowedAfterCap :: "int \<Rightarrow> int \<Rightarrow> int \<Rightarrow> int" where
  "allowedAfterCap otherRowsTotal thisOtherDays candidate =
     (let used = otherRowsTotal + thisOtherDays;
          left = max 0 (40 - used)
      in min left (max 0 candidate))"

section \<open>The staging area\<close>

text \<open>
  The staging area is the React state \<^verbatim>\<open>entries\<close>, a list of entry objects with the
  properties \<open>id\<close>, \<open>project\<close>, \<open>businessUnit\<close>, \<open>Mon\<close> .. \<open>Fri\<close> and \<open>notes\<close>. Each
  operation is the pure updater that the source passes to \<^verbatim>\<open>setEntries\<close>.
  \<^verbatim>\<open>
  const uid = () => Math.random().toString(36).slice(2, 10);
  const blankEntry = () => ({ id: uid(), project: projects[0] || "",
    businessUnit: bus[0] || "", Mon: "", Tue: "", Wed: "", Thu: "", Fri: "", notes: "" });
  const totalWeekHours = useMemo(() => entries.reduce((acc, e) =>
    acc + DAYS.reduce((s, d) => s + (Number(e[d]) || 0), 0), 0), [entries]);
  \<close>
  The random identifier is an input of the model (\<open>newId\<close>).
\<close>

definition blankEntry :: "jsval \<Rightarrow> jsval \<Rightarrow> jsval \<Rightarrow> obj" where
  "blankEntry newId project0 bus0 =
     emptyObj(''id'' := newId, ''project'' := orElse project0 (JStr []),
              ''businessUnit'' := orElse bus0 (JStr []),
              ''Mon'' := JStr [], ''Tue'' := JStr [], ''Wed'' := JStr [], ''Thu'' := JStr [],
              ''Fri'' := JStr [], ''notes'' := JStr [])"

text \<open>\<^verbatim>\<open>ds.reduce((s, d) => s + (Number(r[d]) || 0), 0)\<close> over a list \<open>ds\<close> of day
  names.\<close>

definition hoursOver :: "string list \<Rightarrow> obj \<Rightarrow> int" where
  "hoursOver ds r = foldl (\<lambda>s d. s + numOr0 (r d)) 0 ds"

definition totalWeekHours :: "obj list \<Rightarrow> int" where
  "totalWeekHours entries = foldl (\<lambda>acc e. acc + hoursOver DAYS e) 0 entries"

text \<open>
  \<^verbatim>\<open>
  function updateEntry(id, field, value) {
    setEntries((prev) => prev.map((e) => {
      if (e.id !== id) return e;
      const next = { ...e };
      if (DAYS.includes(field)) {
        if (value === "") { next[field] = ""; return next; }
        let numeric = parseInt(String(value), 10); if (isNaN(numeric)) numeric = 0;
        numeric = Math.max(0, Math.min(24, numeric));
        const otherRowsTotal = prev.filter((r) => r.id !== id)
          .reduce((acc, r) => acc + DAYS.reduce((s, d) => s + (Number(r[d]) || 0), 0), 0);
        const thisOtherDays = DAYS.filter((d) => d !== field)
          .reduce((s, d) => s + (Number(next[d]) || 0), 0);
        const proposed = otherRowsTotal + thisOtherDays + numeric;
        if (proposed > 40) {
          const allowed = Math.max(0, 40 - (otherRowsTotal + thisOtherDays));
          next[field] = allowed; setToastMsg("Limite semanal de 40h atingido.");
        } else { next[field] = numeric; }
      } else { next[field] = value; }
      return next;
    }));
  }
  \<close>
  \<open>updateEntryRow\<close> is the function mapped over \<open>prev\<close>; beside the new row it says
  whether the notice "Limite semanal de 40h atingido." was raised.
\<close>

definition updateEntryRow :: "obj list \<Rightarrow> jsval \<Rightarrow> string \<Rightarrow> jsval \<Rightarrow> obj \<Rightarrow> obj \<times> bool" where
  "updateEntryRow prev ident field val e =
     (if e ''id'' \<noteq> ident then (e, False)
      else if field \<in> set DAYS then
        (if val = JStr [] then (e(field := JStr []), False)
         else
           (let parsed = (case parseInt (toString val) of None \<Rightarrow> 0 | Some n \<Rightarrow> n);
                numeric = max 0 (min 24 parsed);
                otherRowsTotal = foldl (\<lambda>acc r. acc + hoursOver DAYS r) 0
                                   (filter (\<lambda>r. r ''id'' \<noteq> ident) prev);
                thisOtherDays = hoursOver (filter (\<lambda>d. d \<noteq> field) DAYS) e;
                proposed = otherRowsTotal + thisOtherDays + numeric
            in if proposed > 40
               then (e(field := JNum (max 0 (40 - (otherRowsTotal + thisOtherDays)))), True)
               else (e(field := JNum numeric), False)))
      else (e(field := val), False))"

definition updateEntry :: "obj list \<Rightarrow> jsval \<Rightarrow> string \<Rightarrow> jsval \<Rightarrow> obj list" where
  "updateEntry prev ident field val = map (\<lambda>e. fst (updateEntryRow prev ident field val e)) prev"

definition updateEntryNotice :: "obj list \<Rightarrow> jsval \<Rightarrow> string \<Rightarrow> jsval \<Rightarrow> bool" where
  "updateEntryNotice prev ident field val =
     list_ex (\<lambda>e. snd (updateEntryRow prev ident field val e)) prev"

text \<open>
  \<^verbatim>\<open>
  function addRow() { setEntries((p) => [...p, blankEntry()]); }
  function duplicateRow(id) {
    setEntries((prev) => {
      const found = prev.find((e) => e.id === id);
      if (!found) return prev;
      const copy = { ...found, id: uid() };
      return [...prev, copy];
    });
  }
  \<close>
\<close>

definition addRow :: "jsval \<Rightarrow> jsval \<Rightarrow> jsval \<Rightarrow> obj list \<Rightarrow> obj list" where
  "addRow newId project0 bus0 p = p @ [blankEntry newId project0 bus0]"

definition duplicateRow :: "jsval \<Rightarrow> obj list \<Rightarrow> jsval \<Rightarrow> obj list" where
  "duplicateRow newId prev ident =
     (case find (\<lambda>e. e ''id'' = ident) prev of
        None \<Rightarrow> prev
      | Some found \<Rightarrow> prev @ [found(''id'' := newId)])"

section \<open>The durable collection\<close>

text \<open>
  The durable collection is the React state \<^verbatim>\<open>db\<close>, a list of row objects.
  \<^verbatim>\<open>
  async function appendToDatabase() {
    if (!person) { setToastMsg("Selecione a pessoa antes de salvar."); return; }
    const createdAt = new Date().toISOString();
    const weekStartStr = format(start, "yyyy-MM-dd");
    const isoWeek = selectedWeek; const year = selectedYear;
    const rows = [];
    entries.forEach((e, idx) => {
      const mon = Number(e.Mon) || 0; const tue = Number(e.Tue) || 0;
      const wed = Number(e.Wed) || 0; const thu = Number(e.Thu) || 0;
      const fri = Number(e.Fri) || 0;
      const total = mon + tue + wed + thu + fri;
      if (total > 0) {
        rows.push({
          ID: `${year}-${toTwo(isoWeek)}-${person}-${idx + 1}`,
          Year: year, ISO_Week: isoWeek, Week_Start: weekStartStr, Person: person,
          Project: e.project, Business_Unit: e.businessUnit,
          Mon: mon, Tue: tue, Wed: wed, Thu: thu, Fri: fri, Sat: 0, Sun: 0,
          Total: total, Notes: e.notes || "", Created_At: createdAt,
        });
      }
    });
    setDb((prev) => [...prev, ...rows]);
    ... (the optional upsert to the remote store)
  }
  \<close>
  The clock (\<open>createdAt\<close>) and the formatted Monday of the selected week
  (\<open>weekStartStr\<close>) come from outside and are inputs of the model. The upsert that
  follows does not touch \<^verbatim>\<open>db\<close>.
\<close>

definition commitRow ::
  "jsval \<Rightarrow> jsval \<Rightarrow> jsval \<Rightarrow> jsval \<Rightarrow> jsval \<Rightarrow> nat \<Rightarrow> obj \<Rightarrow> obj" where
  "commitRow person year isoWeek weekStartStr createdAt idx e =
     emptyObj(
       ''ID'' := JStr (toString year @ ''-'' @ toTwo isoWeek @ ''-'' @ toString person
                       @ ''-'' @ showInt (int idx + 1)),
       ''Year'' := year, ''ISO_Week'' := isoWeek, ''Week_Start'' := weekStartStr,
       ''Person'' := person, ''Project'' := e ''project'',
       ''Business_Unit'' := e ''businessUnit'',
       ''Mon'' := JNum (numOr0 (e ''Mon'')), ''Tue'' := JNum (numOr0 (e ''Tue'')),
       ''Wed'' := JNum (numOr0 (e ''Wed'')), ''Thu'' := JNum (numOr0 (e ''Thu'')),
       ''Fri'' := JNum (numOr0 (e ''Fri'')), ''Sat'' := JNum 0, ''Sun'' := JNum 0,
       ''Total'' := JNum (numOr0 (e ''Mon'') + numOr0 (e ''Tue'') + numOr0 (e ''Wed'')
                          + numOr0 (e ''Thu'') + numOr0 (e ''Fri'')),
       ''Notes'' := orElse (e ''notes'') (JStr []), ''Created_At'' := createdAt)"

definition commitRows ::
  "jsval \<Rightarrow> jsval \<Rightarrow> jsval \<Rightarrow> jsval \<Rightarrow> jsval \<Rightarrow> obj list \<Rightarrow> obj list" where
  "commitRows person year isoWeek weekStartStr createdAt entries =
     foldl (\<lambda>rows (idx, e).
              if numOr0 (e ''Mon'') + numOr0 (e ''Tue'') + numOr0 (e ''Wed'')
                   + numOr0 (e ''Thu'') + numOr0 (e ''Fri'') > 0
              then rows @ [commitRow person year isoWeek weekStartStr createdAt idx e]
              else rows)
       [] (enumerate 0 entries)"

definition appendToDatabase ::
  "jsval \<Rightarrow> jsval \<Rightarrow> jsval \<Rightarrow> jsval \<Rightarrow> jsval \<Rightarrow> obj list \<Rightarrow> obj list \<Rightarrow> obj list" where
  "appendToDatabase person year isoWeek weekStartStr createdAt entries db =
     (if \<not> truthy person then db
      else db @ commitRows person year isoWeek weekStartStr createdAt entries)"

text \<open>
  \<^verbatim>\<open>
  function mapFromSupabase(r) {
    return { ID: r.id, Year: r.year, ISO_Week: r.iso_week, Week_Start: r.week_start,
      Person: r.person, Project: r.project, Business_Unit: r.business_unit,
      Mon: r.mon, Tue: r.tue, Wed: r.wed, Thu: r.thu, Fri: r.fri, Sat: r.sat, Sun: r.sun,
      Total: r.total, Notes: r.notes, Created_At: r.created_at };
  }
  \<close>
\<close>

definition mapFromSupabase :: "obj \<Rightarrow> obj" where
  "mapFromSupabase r =
     emptyObj(''ID'' := r ''id'', ''Year'' := r ''year'', ''ISO_Week'' := r ''iso_week'',
       ''Week_Start'' := r ''week_start'', ''Person'' := r ''person'',
       ''Project'' := r ''project'', ''Business_Unit'' := r ''business_unit'',
       ''Mon'' := r ''mon'', ''Tue'' := r ''tue'', ''Wed'' := r ''wed'', ''Thu'' := r ''thu'',
       ''Fri'' := r ''fri'', ''Sat'' := r ''sat'', ''Sun'' := r ''sun'',
       ''Total'' := r ''total'', ''Notes'' := r ''notes'', ''Created_At'' := r ''created_at'')"

text \<open>
  Editing a committed row in place.
  \<^verbatim>\<open>
  function startEditRow(row) { setEditingId(row.ID); setEditingValues({ ...row }); }
  function changeEditing(field, value) {
    setEditingValues((prev) => ({ ...prev, [field]: value }));
  }
  async function saveEditRow() {
    if (!editingId || !editingValues) return;
    try {
      if (supabase) { ... update the remote row; if (error) throw error; }
      setDb((prev) => prev.map((r) => (r.ID === editingId ? { ...editingValues } : r)));
      setToastMsg("Registro atualizado.");
      cancelEditRow();
    } catch (e) { ... }
  }
  \<close>
  The edit state is the pair of \<^verbatim>\<open>editingId\<close> and \<^verbatim>\<open>editingValues\<close> (\<open>None\<close> for
  \<open>null\<close>). \<open>remoteOk\<close> says that the remote update, when there is a remote store, did
  not fail; when it fails \<^verbatim>\<open>db\<close> is left as it was.
\<close>

record editState =
  editingId :: jsval
  editingValues :: "obj option"

definition startEditRow :: "obj \<Rightarrow> editState" where
  "startEditRow row = \<lparr>editingId = row ''ID'', editingValues = Some row\<rparr>"

definition changeEditing :: "string \<Rightarrow> jsval \<Rightarrow> editState \<Rightarrow> editState" where
  "changeEditing field val st =
     st\<lparr>editingValues := Some ((case editingValues st of None \<Rightarrow> emptyObj | Some ob \<Rightarrow> ob)
                                 (field := val))\<rparr>"

definition saveEditRow :: "bool \<Rightarrow> editState \<Rightarrow> obj list \<Rightarrow> obj list" where
  "saveEditRow remoteOk st db =
     (case editingValues st of
        None \<Rightarrow> db
      | Some vals \<Rightarrow>
          if \<not> truthy (editingId st) then db
          else if \<not> remoteOk then db
          else map (\<lambda>r. if r ''ID'' = editingId st then vals else r) db)"

section \<open>Collections of the dashboard\<close>

text \<open>
  A JavaScript \<^verbatim>\<open>Map\<close> keeps its keys in the order of their first insertion;
  \<^verbatim>\<open>set\<close> on a key that is present replaces the value where it stands. It is an
  association list with distinct keys. A \<^verbatim>\<open>Set\<close> is a list without repetition, in
  insertion order. Keys are primitives, on which the key equality of \<^verbatim>\<open>Map\<close> and
  \<^verbatim>\<open>Set\<close> is equality of values.
\<close>

fun mapSet :: "'k \<Rightarrow> 'v \<Rightarrow> ('k \<times> 'v) list \<Rightarrow> ('k \<times> 'v) list" where
  "mapSet k v [] = [(k, v)]"
| "mapSet k v (kv # m) = (if fst kv = k then (k, v) # m else kv # mapSet k v m)"

definition mapGetOr :: "'v \<Rightarrow> ('k \<times> 'v) list \<Rightarrow> 'k \<Rightarrow> 'v" where
  "mapGetOr d m k = (case map_of m k of None \<Rightarrow> d | Some v \<Rightarrow> v)"

definition setAdd :: "'a \<Rightarrow> 'a list \<Rightarrow> 'a list" where
  "setAdd x s = (if x \<in> set s then s else s @ [x])"

text \<open>\<^verbatim>\<open>xs.sort(cmp)\<close> with a comparator: the sort is stable, and for a comparator
  that orders the elements consistently the result is the stable insertion sort.\<close>

fun insertBy :: "('a \<Rightarrow> 'a \<Rightarrow> int) \<Rightarrow> 'a \<Rightarrow> 'a list \<Rightarrow> 'a list" where
  "insertBy cmp x [] = [x]"
| "insertBy cmp x (y # ys) = (if cmp x y < 0 then x # y # ys else y # insertBy cmp x ys)"

definition sortBy :: "('a \<Rightarrow> 'a \<Rightarrow> int) \<Rightarrow> 'a list \<Rightarrow> 'a list" where
  "sortBy cmp xs = foldl (\<lambda>acc x. insertBy cmp x acc) [] xs"

section \<open>Aggregation: totals by dimension\<close>

text \<open>
  \<^verbatim>\<open>
  function groupTotals(rows, key) {
    const map = new Map();
    for (const r of rows || []) {
      const groupKey = r?.[key] || "\<emdash>";
      const total = Number(r?.Total) || 0;
      const agg = map.get(groupKey) ||
        { name: groupKey, total: 0, people: new Set(), projects: new Set() };
      agg.total += total;
      if (r?.Person) agg.people.add(r.Person);
      if (r?.Project) agg.projects.add(r.Project);
      map.set(groupKey, agg);
    }
    return Array.from(map.values()).map((x) => ({
      name: x.name, total: x.total,
      peopleCount: x.people.size, projectsCount: x.projects.size,
    }));
  }
  \<close>
  The sentinel is the em dash U+2014, three bytes in UTF-8. A row may be \<open>null\<close>
  (\<open>None\<close>): every read of it goes through \<open>?.\<close>. A \<open>null\<close> list of rows is the empty
  list.
\<close>

definition sentinel :: jsval where
  "sentinel = JStr [CHR 0xE2, CHR 0x80, CHR 0x94]"

record agg =
  a_name :: jsval
  a_total :: int
  a_people :: "jsval list"
  a_projects :: "jsval list"

record groupTotal =
  g_name :: jsval
  g_total :: int
  g_peopleCount :: nat
  g_projectsCount :: nat

definition groupKey :: "string \<Rightarrow> obj option \<Rightarrow> jsval" where
  "groupKey key r = orElse (optGet r key) sentinel"

definition aggAdd :: "obj option \<Rightarrow> agg \<Rightarrow> agg" where
  "aggAdd r a =
     (let a1 = a\<lparr>a_total := a_total a + numOr0 (optGet r ''Total'')\<rparr>;
          a2 = (if truthy (optGet r ''Person'')
                then a1\<lparr>a_people := setAdd (optGet r ''Person'') (a_people a1)\<rparr> else a1)
      in if truthy (optGet r ''Project'')
         then a2\<lparr>a_projects := setAdd (optGet r ''Project'') (a_projects a2)\<rparr> else a2)"

definition groupStep :: "string \<Rightarrow> (jsval \<times> agg) list \<Rightarrow> obj option \<Rightarrow> (jsval \<times> agg) list" where
  "groupStep key m r =
     (let gk = groupKey key r;
          a = mapGetOr \<lparr>a_name = gk, a_total = 0, a_people = [], a_projects = []\<rparr> m gk
      in mapSet gk (aggAdd r a) m)"

definition groupTotals :: "obj option list \<Rightarrow> string \<Rightarrow> groupTotal list" where
  "groupTotals rows key =
     map (\<lambda>(k, x). \<lparr>g_name = a_name x, g_total = a_total x,
                     g_peopleCount = length (a_people x),
                     g_projectsCount = length (a_projects x)\<rparr>)
         (foldl (groupStep key) [] rows)"

section \<open>Aggregation: week and month keys\<close>

text \<open>
  \<^verbatim>\<open>
  function toWeekKey(row) {
    const d = row?.Week_Start ? new Date(row.Week_Start) : null;
    if (!d || isNaN(d)) return String(row?.Year||"").padStart(4,"0")+"-W"
                               +String(row?.ISO_Week||"").padStart(2,"0");
    const y = d.getFullYear();
    const w = String(row?.ISO_Week || 0).padStart(2, "0");
    return `${y}-W${w}`;
  }
  function toMonthKey(row) {
    const d = row?.Week_Start ? new Date(row.Week_Start) : null;
    const y = d && !isNaN(d) ? d.getFullYear() : (row?.Year||"");
    const m = d && !isNaN(d) ? String(d.getMonth()+1).padStart(2,"0") : "01";
    return `${y}-${m}`;
  }
  \<close>
  What \<^verbatim>\<open>new Date(v)\<close> reads from a value, and the year and month it then reports in
  the local time zone, belong to the platform. They are the parameter \<open>dateOf\<close>:
  \<open>None\<close> for an invalid date, otherwise the pair of \<^verbatim>\<open>getFullYear()\<close> and
  \<^verbatim>\<open>getMonth()\<close>.
\<close>

type_synonym dateReader = "jsval \<Rightarrow> (int \<times> int) option"

definition rowDate :: "dateReader \<Rightarrow> obj option \<Rightarrow> (int \<times> int) option" where
  "rowDate dateOf row =
     (if truthy (optGet row ''Week_Start'') then dateOf (optGet row ''Week_Start'') else None)"

definition toWeekKey :: "dateReader \<Rightarrow> obj option \<Rightarrow> string" where
  "toWeekKey dateOf row =
     (case rowDate dateOf row of
        None \<Rightarrow> padStart 4 (CHR ''0'') (toString (orElse (optGet row ''Year'') (JStr [])))
                 @ ''-W''
                 @ padStart 2 (CHR ''0'') (toString (orElse (optGet row ''ISO_Week'') (JStr [])))
      | Some (y, m) \<Rightarrow>
          showInt y @ ''-W''
            @ padStart 2 (CHR ''0'') (toString (orElse (optGet row ''ISO_Week'') (JNum 0))))"


text \<open>The distinct elements of a list, in the order of their first appearance.\<close>

primrec firstSeen :: "'a list \<Rightarrow> 'a list" where
  "firstSeen [] = []"
| "firstSeen (x # xs) = x # removeAll x (firstSeen xs)"

section \<open>Aggregation: weekly series by person for a project\<close>

text \<open>
  \<^verbatim>\<open>
  const weeklyByPersonForProject = useMemo(() => {
    if (!projectFilter) return [];
    const byPersonMap = new Map();
    const allWeeks = new Set();
    for (const r of (db||[])) {
      if (r.Project !== projectFilter) continue;
      const wk = toWeekKey(r);
      allWeeks.add(r.Week_Start || wk);
      const person = r.Person || "\<emdash>";
      const m = byPersonMap.get(person) || new Map();
      m.set(wk, (m.get(wk)||0) + (Number(r.Total)||0));
      byPersonMap.set(person, m);
    }
    const weeksSorted = Array.from(allWeeks).sort((a,b)=> String(a).localeCompare(String(b)));
    return Array.from(byPersonMap.entries()).map(([person, m]) => {
      const series = weeksSorted.map(ws => {
        const wkCandidates = Array.from(m.keys());
        let val = 0;
        for (const k of wkCandidates) {
          if (ws.includes(k.split("-W")[1])) { val = m.get(k) || 0; break; }
        }
        if (!val && m.has(ws)) val = m.get(ws) || 0;
        return val;
      });
      const total = series.reduce((s,n)=>s+n,0);
      return { person, series, total, weeksLabels: weeksSorted };
    }).sort((a,b)=> b.total - a.total);
  }, [db, projectFilter]);
  \<close>
  \<^verbatim>\<open>ws.includes\<close> exists on strings only: on a week label that is not a string the
  call raises \<open>TypeError\<close>. The collation of \<^verbatim>\<open>localeCompare\<close> belongs to the
  platform and is a parameter.
\<close>

datatype jserror = TypeError

definition startsWith :: "string \<Rightarrow> string \<Rightarrow> bool" where
  "startsWith s p = (take (length p) s = p)"

fun includesStr :: "string \<Rightarrow> string \<Rightarrow> bool" where
  "includesStr [] p = (p = [])"
| "includesStr (c # cs) p = (startsWith (c # cs) p \<or> includesStr cs p)"

text \<open>\<^verbatim>\<open>s.split(sep)\<close>; \<open>splitFrom\<close> carries the piece read so far.\<close>

function splitFrom :: "string \<Rightarrow> string \<Rightarrow> string \<Rightarrow> string list" where
  "splitFrom sep cur [] = [cur]"
| "splitFrom sep cur (c # cs) =
     (if sep \<noteq> [] \<and> startsWith (c # cs) sep
      then cur # splitFrom sep [] (drop (length sep) (c # cs))
      else splitFrom sep (cur @ [c]) cs)"
  by pat_completeness auto
termination
  by (relation "measure (\<lambda>(sep, cur, s). length s)") auto

definition splitOn :: "string \<Rightarrow> string \<Rightarrow> string list" where
  "splitOn sep s = (if sep = [] then map (\<lambda>c. [c]) s else splitFrom sep [] s)"

text \<open>\<^verbatim>\<open>k.split("-W")[1]\<close>: the second piece, \<open>undefined\<close> when there is none.\<close>

definition weekSegment :: "string \<Rightarrow> jsval" where
  "weekSegment k = (case splitOn ''-W'' k of a # b # rest \<Rightarrow> JStr b | _ \<Rightarrow> JUndefined)"

record personSeries =
  s_person :: jsval
  s_series :: "int list"
  s_total :: int
  s_weeksLabels :: "jsval list"

definition seriesAt :: "(string \<times> int) list \<Rightarrow> jsval \<Rightarrow> jserror + int" where
  "seriesAt m ws =
     (case ws of
        JStr w \<Rightarrow>
          (let v = (case find (\<lambda>k. includesStr w (toString (weekSegment k))) (map fst m) of
                      None \<Rightarrow> 0
                    | Some k \<Rightarrow> mapGetOr 0 m k)
           in Inr (if v = 0 \<and> map_of m w \<noteq> None then mapGetOr 0 m w else v))
      | _ \<Rightarrow> (if m = [] then Inr 0 else Inl TypeError))"

fun collect :: "('e + 'a) list \<Rightarrow> 'e + 'a list" where
  "collect [] = Inr []"
| "collect (x # xs) =
     (case x of
        Inl e \<Rightarrow> Inl e
      | Inr v \<Rightarrow> (case collect xs of Inl e \<Rightarrow> Inl e | Inr vs \<Rightarrow> Inr (v # vs)))"

definition weeklyStep ::
  "dateReader \<Rightarrow> jsval \<Rightarrow> (jsval \<times> (string \<times> int) list) list \<times> jsval list \<Rightarrow> obj
     \<Rightarrow> (jsval \<times> (string \<times> int) list) list \<times> jsval list" where
  "weeklyStep dateOf projectFilter st r =
     (if r ''Project'' \<noteq> projectFilter then st
      else
        (let wk = toWeekKey dateOf (Some r);
             allWeeks = setAdd (orElse (r ''Week_Start'') (JStr wk)) (snd st);
             person = orElse (r ''Person'') sentinel;
             m = mapGetOr [] (fst st) person;
             m1 = mapSet wk (mapGetOr 0 m wk + numOr0 (r ''Total'')) m
         in (mapSet person m1 (fst st), allWeeks)))"

definition weeklyByPersonForProject ::
  "dateReader \<Rightarrow> (string \<Rightarrow> string \<Rightarrow> int) \<Rightarrow> obj list \<Rightarrow> jsval
     \<Rightarrow> jserror + personSeries list" where
  "weeklyByPersonForProject dateOf localeCompare db projectFilter =
     (if \<not> truthy projectFilter then Inr []
      else
        (let st = foldl (weeklyStep dateOf projectFilter) ([], []) db;
             weeksSorted = sortBy (\<lambda>a b. localeCompare (toString a) (toString b)) (snd st)
         in case collect
                  (map (\<lambda>(person, m).
                          case collect (map (seriesAt m) weeksSorted) of
                            Inl e \<Rightarrow> Inl e
                          | Inr series \<Rightarrow>
                              Inr \<lparr>s_person = person, s_series = series,
                                   s_total = foldl (\<lambda>s n. s + n) 0 series,
                                   s_weeksLabels = weeksSorted\<rparr>)
                       (fst st)) of
              Inl e \<Rightarrow> Inl e
            | Inr out \<Rightarrow> Inr (sortBy (\<lambda>a b. s_total b - s_total a) out)))"

section \<open>Aggregation: monthly proportion by project\<close>












section \<open>The cap enforcer\<close>

text \<open>
  C1. The cap enforcer returns \<open>min(allowance, max(0, candidateValue))\<close> where
  \<open>used = otherRowsTotal + thisRowOtherDaysTotal\<close> and \<open>allowance = max(0, 40 - used)\<close>;
  this holds for every integer argument, so in particular for the non-negative totals
  of the claim. The two examples of the self-test: with 30 and 5 hours used a request
  of 10 leaves 5, and a request of -2 is floored to 0.
\<close>

theorem allowedAfterCap_formula:
  "allowedAfterCap otherRowsTotal thisRowOtherDaysTotal candidateValue
     = min (max 0 (40 - (otherRowsTotal + thisRowOtherDaysTotal))) (max 0 candidateValue)
   \<and> allowedAfterCap 30 5 10 = 5
   \<and> allowedAfterCap 0 0 (- 2) = 0"
  by (simp add: allowedAfterCap_def Let_def)

text \<open>
  C2, as the code does it. \<^verbatim>\<open>allowedAfterCap\<close> has no per-day ceiling: it bounds the
  result by the hours left under 40 and by the request, nothing else. The result is
  between 0 and \<open>max(0, 40 - otherRowsTotal - thisRowOtherDaysTotal)\<close> and never above
  \<open>max(0, candidateValue)\<close>. When the request is at most 24 (the staging flow clamps the
  typed value to 0..24 before it applies the weekly rule) the result is in
  \<open>[0, min(24, 40 - otherRowsTotal - thisRowOtherDaysTotal)]\<close> when that bound is
  non-negative and is 0 otherwise.
\<close>

theorem allowedAfterCap_range:
  "0 \<le> allowedAfterCap otherRowsTotal thisRowOtherDaysTotal candidateValue
   \<and> allowedAfterCap otherRowsTotal thisRowOtherDaysTotal candidateValue
        \<le> max 0 (40 - otherRowsTotal - thisRowOtherDaysTotal)
   \<and> allowedAfterCap otherRowsTotal thisRowOtherDaysTotal candidateValue \<le> max 0 candidateValue
   \<and> (candidateValue \<le> 24 \<longrightarrow>
        (if 0 \<le> min 24 (40 - otherRowsTotal - thisRowOtherDaysTotal)
         then allowedAfterCap otherRowsTotal thisRowOtherDaysTotal candidateValue
                \<le> min 24 (40 - otherRowsTotal - thisRowOtherDaysTotal)
         else allowedAfterCap otherRowsTotal thisRowOtherDaysTotal candidateValue = 0))"
  by (auto simp add: allowedAfterCap_def Let_def)

theorem allowedAfterCap_range_witness:
  "(20::int) \<le> 24 \<and> 0 \<le> min (24::int) (40 - 10 - 25) \<and> allowedAfterCap 10 25 20 = 5
   \<and> allowedAfterCap 10 25 20 \<le> min 24 (40 - 10 - 25)"
  using allowedAfterCap_range [of 10 25 20]
  by (simp add: allowedAfterCap_def Let_def)

text \<open>
  C2, as the claim states it, fails: with nothing used and a request of 30 hours the
  function answers 30, above the ceiling of 24 that the claim promises.
\<close>

theorem allowedAfterCap_exceeds_24:
  "allowedAfterCap 0 0 30 = 30 \<and> \<not> allowedAfterCap 0 0 30 \<le> min 24 (40 - 0 - 0)"
  by (simp add: allowedAfterCap_def Let_def)

section \<open>The weekly sum\<close>



section \<open>The staging area under the weekly cap\<close>

text \<open>The two \<^verbatim>\<open>reduce\<close> loops are sums.\<close>

lemma foldl_plus_sum: "foldl (\<lambda>s x. s + f x) a xs = (a::int) + sum_list (map f xs)"
  by (induction xs arbitrary: a) auto


lemma totalWeekHours_sum: "totalWeekHours es = (\<Sum>e\<leftarrow>es. hoursOver DAYS e)"
  by (simp add: totalWeekHours_def foldl_plus_sum)












text \<open>Definitions to unfold when a concrete state is evaluated.\<close>

lemmas js_eval =
  totalWeekHours_def hoursOver_def DAYS_def updateEntry_def updateEntryRow_def blankEntry_def
  emptyObj_def numOr0_def strToNumber_def trim_def parseInt_def blanks_def isDigit_def
  digitVal_def digitsVal_def orElse_def Let_def



text \<open>With ids that are new each time, the operations that add rows keep the two
  conditions on the state: \<^verbatim>\<open>addRow\<close> appends a row of blanks and \<^verbatim>\<open>duplicateRow\<close> a copy
  of a row of the state. A blank input stores the blank string, not a number.\<close>

lemma addRow_keeps_shape:
  assumes "distinct (map (\<lambda>e. e ''id'') p)" and "newId \<notin> set (map (\<lambda>e. e ''id'') p)"
    and "\<forall>e\<in>set p. \<forall>d\<in>set DAYS. e d = JStr [] \<or> (\<exists>n. e d = JNum n \<and> 0 \<le> n)"
  shows "distinct (map (\<lambda>e. e ''id'') (addRow newId project0 bus0 p))
         \<and> (\<forall>e\<in>set (addRow newId project0 bus0 p). \<forall>d\<in>set DAYS.
               e d = JStr [] \<or> (\<exists>n. e d = JNum n \<and> 0 \<le> n))"
  using assms by (auto simp add: addRow_def blankEntry_def DAYS_def)

lemma duplicateRow_keeps_shape:
  assumes "distinct (map (\<lambda>e. e ''id'') p)" and "newId \<notin> set (map (\<lambda>e. e ''id'') p)"
    and "\<forall>e\<in>set p. \<forall>d\<in>set DAYS. e d = JStr [] \<or> (\<exists>n. e d = JNum n \<and> 0 \<le> n)"
  shows "distinct (map (\<lambda>e. e ''id'') (duplicateRow newId p ident))
         \<and> (\<forall>e\<in>set (duplicateRow newId p ident). \<forall>d\<in>set DAYS.
               e d = JStr [] \<or> (\<exists>n. e d = JNum n \<and> 0 \<le> n))"
proof (cases "find (\<lambda>e. e ''id'' = ident) p")
  case None
  with assms show ?thesis by (simp add: duplicateRow_def)
next
  case (Some found)
  then have "found \<in> set p" by (auto simp add: find_Some_iff)
  with assms(3) have "\<forall>d\<in>set DAYS. found d = JStr [] \<or> (\<exists>n. found d = JNum n \<and> 0 \<le> n)"
    by blast
  with assms Some show ?thesis by (auto simp add: duplicateRow_def DAYS_def)
qed

lemma updateEntry_blank_value:
  "map (\<lambda>e. e ''Mon'') (updateEntry [(blankEntry (JStr ''a'') (JStr ''P'') (JStr ''B''))(''Mon'' := JNum 8)]
                                  (JStr ''a'') ''Mon'' (JStr [])) = [JStr []]"
  by (simp add: js_eval)


text \<open>
  C9. When a row with the id exists, \<^verbatim>\<open>duplicateRow\<close> appends a copy of the first such
  row that differs from it in the id only (business unit, project, the five weekday
  cells and the notes are the same), and it checks no cap: the summed hours grow by the
  hours of the copied row. So there is a staging state with more than 20 and at most 40
  hours whose hours exceed 40 after \<^verbatim>\<open>duplicateRow\<close>.
\<close>

theorem duplicateRow_copies_without_cap:
  assumes "find (\<lambda>e. e ''id'' = ident) prev = Some found"
  shows "duplicateRow newId prev ident = prev @ [found(''id'' := newId)]
         \<and> (found(''id'' := newId)) ''id'' = newId
         \<and> (found(''id'' := newId)) ''businessUnit'' = found ''businessUnit''
         \<and> (found(''id'' := newId)) ''project'' = found ''project''
         \<and> map (found(''id'' := newId)) DAYS = map found DAYS
         \<and> (found(''id'' := newId)) ''notes'' = found ''notes''
         \<and> (\<forall>k. k \<noteq> ''id'' \<longrightarrow> (found(''id'' := newId)) k = found k)
         \<and> totalWeekHours (duplicateRow newId prev ident)
             = totalWeekHours prev + hoursOver DAYS found
         \<and> (\<exists>prev0 ident0. 20 < totalWeekHours prev0 \<and> totalWeekHours prev0 \<le> 40
               \<and> 40 < totalWeekHours (duplicateRow newId prev0 ident0))"
proof -
  have dup: "duplicateRow newId prev ident = prev @ [found(''id'' := newId)]"
    using assms by (simp add: duplicateRow_def)
  have hrs: "hoursOver DAYS (found(''id'' := newId)) = hoursOver DAYS found"
    by (simp add: hoursOver_def DAYS_def)
  have tot: "totalWeekHours (duplicateRow newId prev ident)
             = totalWeekHours prev + hoursOver DAYS found"
    by (simp add: dup totalWeekHours_sum hrs)
  let ?p0 = "[(blankEntry (JStr ''a'') (JStr ''P'') (JStr ''B''))
                (''Mon'' := JNum 8, ''Tue'' := JNum 8, ''Wed'' := JNum 8)]"
  have "totalWeekHours ?p0 = 24" by (simp add: js_eval)
  moreover have "totalWeekHours (duplicateRow newId ?p0 (JStr ''a'')) = 48"
    by (simp add: js_eval duplicateRow_def)
  ultimately have ex: "\<exists>prev0 ident0. 20 < totalWeekHours prev0 \<and> totalWeekHours prev0 \<le> 40
               \<and> 40 < totalWeekHours (duplicateRow newId prev0 ident0)"
    by (intro exI [of _ ?p0] exI [of _ "JStr ''a''"]) simp
  from dup tot ex show ?thesis by (simp add: DAYS_def)
qed

theorem duplicateRow_copies_without_cap_witness:
  "find (\<lambda>e. e ''id'' = JStr ''a'')
     [(blankEntry (JStr ''a'') (JStr ''P'') (JStr ''B''))
        (''Mon'' := JNum 8, ''Tue'' := JNum 8, ''Wed'' := JNum 8)]
   = Some ((blankEntry (JStr ''a'') (JStr ''P'') (JStr ''B''))
        (''Mon'' := JNum 8, ''Tue'' := JNum 8, ''Wed'' := JNum 8))
   \<and> totalWeekHours [(blankEntry (JStr ''a'') (JStr ''P'') (JStr ''B''))
        (''Mon'' := JNum 8, ''Tue'' := JNum 8, ''Wed'' := JNum 8)] = 24
   \<and> totalWeekHours (duplicateRow (JStr ''z'')
        [(blankEntry (JStr ''a'') (JStr ''P'') (JStr ''B''))
           (''Mon'' := JNum 8, ''Tue'' := JNum 8, ''Wed'' := JNum 8)] (JStr ''a'')) = 48"
proof -
  let ?e = "(blankEntry (JStr ''a'') (JStr ''P'') (JStr ''B''))
        (''Mon'' := JNum 8, ''Tue'' := JNum 8, ''Wed'' := JNum 8)"
  have f: "find (\<lambda>e. e ''id'' = JStr ''a'') [?e] = Some ?e"
    by (simp add: blankEntry_def)
  have t: "totalWeekHours [?e] = 24" and h: "hoursOver DAYS ?e = 24"
    by (simp_all add: js_eval)
  from duplicateRow_copies_without_cap [OF f, of "JStr ''z''"]
  have "totalWeekHours (duplicateRow (JStr ''z'') [?e] (JStr ''a''))
          = totalWeekHours [?e] + hoursOver DAYS ?e"
    by blast
  with f t h show ?thesis by simp
qed

section \<open>Committing and editing rows\<close>

lemma commit_foldl:
  "foldl (\<lambda>rows (idx, e). if P e then rows @ [f idx e] else rows) acc xs
     = acc @ map (\<lambda>(idx, e). f idx e) (filter (\<lambda>(idx, e). P e) xs)"
  by (induction xs arbitrary: acc) (auto split: prod.splits)

lemma hoursOver_DAYS:
  "hoursOver DAYS e = numOr0 (e ''Mon'') + numOr0 (e ''Tue'') + numOr0 (e ''Wed'')
                      + numOr0 (e ''Thu'') + numOr0 (e ''Fri'')"
  by (simp add: hoursOver_def DAYS_def)

text \<open>
  C6. The person of the component is always one of the names of \<^verbatim>\<open>people\<close>, a list that
  is never empty (it starts as \<^verbatim>\<open>DEFAULT_PEOPLE\<close> and is replaced by a fetched list only
  when that list has an element), so \<^verbatim>\<open>person\<close> is a non-empty string and the guard at
  the top of \<^verbatim>\<open>appendToDatabase\<close> does not fire. With such a person
  \<^verbatim>\<open>appendToDatabase\<close> appends to the durable collection, in order, one row for each
  staging entry whose weekday sum Mon+Tue+Wed+Thu+Fri is greater than 0 and none for the
  others; each committed row carries that sum as \<open>Total\<close>, the coerced weekday values,
  and the stamp \<open>Created_At\<close>. The equation also records what the guard does with a
  falsy person: the collection is left as it was.
\<close>

theorem appendToDatabase_commits_positive_rows:
  "appendToDatabase person year isoWeek weekStartStr createdAt entries db =
     (if truthy person
      then db @ map (\<lambda>(idx, e). commitRow person year isoWeek weekStartStr createdAt idx e)
                  (filter (\<lambda>(idx, e). 0 < hoursOver DAYS e) (enumerate 0 entries))
      else db)
   \<and> commitRow person year isoWeek weekStartStr createdAt idx e ''Total'' = JNum (hoursOver DAYS e)
   \<and> commitRow person year isoWeek weekStartStr createdAt idx e ''Created_At'' = createdAt
   \<and> map (commitRow person year isoWeek weekStartStr createdAt idx e) DAYS
       = map (\<lambda>d. JNum (numOr0 (e d))) DAYS
   \<and> hoursOver DAYS (commitRow person year isoWeek weekStartStr createdAt idx e) = hoursOver DAYS e"
proof -
  have a: "commitRows person year isoWeek weekStartStr createdAt entries
           = map (\<lambda>(idx, e). commitRow person year isoWeek weekStartStr createdAt idx e)
                  (filter (\<lambda>(idx, e). 0 < hoursOver DAYS e) (enumerate 0 entries))"
    unfolding commitRows_def hoursOver_DAYS
    using commit_foldl [where acc = "[]" and xs = "enumerate 0 entries"
        and P = "\<lambda>e. numOr0 (e ''Mon'') + numOr0 (e ''Tue'') + numOr0 (e ''Wed'')
                      + numOr0 (e ''Thu'') + numOr0 (e ''Fri'') > 0"
        and f = "commitRow person year isoWeek weekStartStr createdAt"]
    by simp
  have b: "commitRow person year isoWeek weekStartStr createdAt idx e ''Total'' = JNum (hoursOver DAYS e)"
    by (simp add: commitRow_def hoursOver_DAYS)
  have c: "commitRow person year isoWeek weekStartStr createdAt idx e ''Created_At'' = createdAt"
    by (simp add: commitRow_def)
  have d: "map (commitRow person year isoWeek weekStartStr createdAt idx e) DAYS
       = map (\<lambda>d. JNum (numOr0 (e d))) DAYS"
    by (simp add: commitRow_def DAYS_def)
  have e: "hoursOver DAYS (commitRow person year isoWeek weekStartStr createdAt idx e) = hoursOver DAYS e"
    by (simp add: hoursOver_DAYS) (simp add: commitRow_def numOr0_def)
  from a b c d e show ?thesis by (simp add: appendToDatabase_def)
qed

text \<open>A commit for Ana in ISO week 32 of 2025: of a staging entry with 8 hours on Monday
  and a blank one, the first is appended, with \<open>Total\<close> 8.\<close>

theorem appendToDatabase_commits_positive_rows_example:
  "truthy (JStr ''Ana'')
   \<and> map (\<lambda>r. (r ''ID'', r ''Person'', r ''Project'', r ''Mon'', r ''Total'', r ''Created_At''))
       (appendToDatabase (JStr ''Ana'') (JNum 2025) (JNum 32) (JStr ''2025-08-04'')
          (JStr ''2025-08-08T12:00:00.000Z'')
          [(blankEntry (JStr ''a'') (JStr ''P'') (JStr ''B''))(''Mon'' := JNum 8),
           blankEntry (JStr ''b'') (JStr ''Q'') (JStr ''B'')] [])
     = [(JStr ''2025-32-Ana-1'', JStr ''Ana'', JStr ''P'', JNum 8, JNum 8,
         JStr ''2025-08-08T12:00:00.000Z'')]"
  using appendToDatabase_commits_positive_rows
    [of "JStr ''Ana''" "JNum 2025" "JNum 32" "JStr ''2025-08-04''"
        "JStr ''2025-08-08T12:00:00.000Z''"
        "[(blankEntry (JStr ''a'') (JStr ''P'') (JStr ''B''))(''Mon'' := JNum 8),
          blankEntry (JStr ''b'') (JStr ''Q'') (JStr ''B'')]" "[]"]
  by (simp add: js_eval commitRow_def toTwo_def padStart_def showInt_def showNat.simps
        digitChar_def)


text \<open>
  C5 on the row-edit save path. A row committed with Monday 8 has \<open>Total\<close> 8. Editing
  Monday to 5 and saving replaces the row by the edited values, whose \<open>Total\<close> is still
  the 8 copied by \<^verbatim>\<open>startEditRow\<close>: the weekdays of the saved row sum to 5.
\<close>

theorem saveEditRow_keeps_stale_Total:
  "map (\<lambda>r. r ''Total'')
     [commitRow (JStr ''Ana'') (JNum 2025) (JNum 32) (JStr ''2025-08-04'')
        (JStr ''2025-08-08T12:00:00.000Z'') 0
        ((blankEntry (JStr ''a'') (JStr ''P'') (JStr ''B''))(''Mon'' := JNum 8))] = [JNum 8]
   \<and> map (\<lambda>r. r ''Total'')
       (saveEditRow True
          (changeEditing ''Mon'' (JStr ''5'')
             (startEditRow
                (commitRow (JStr ''Ana'') (JNum 2025) (JNum 32) (JStr ''2025-08-04'')
                   (JStr ''2025-08-08T12:00:00.000Z'') 0
                   ((blankEntry (JStr ''a'') (JStr ''P'') (JStr ''B''))(''Mon'' := JNum 8)))))
          [commitRow (JStr ''Ana'') (JNum 2025) (JNum 32) (JStr ''2025-08-04'')
             (JStr ''2025-08-08T12:00:00.000Z'') 0
             ((blankEntry (JStr ''a'') (JStr ''P'') (JStr ''B''))(''Mon'' := JNum 8))])
       = [JNum 8]
   \<and> map (hoursOver DAYS)
       (saveEditRow True
          (changeEditing ''Mon'' (JStr ''5'')
             (startEditRow
                (commitRow (JStr ''Ana'') (JNum 2025) (JNum 32) (JStr ''2025-08-04'')
                   (JStr ''2025-08-08T12:00:00.000Z'') 0
                   ((blankEntry (JStr ''a'') (JStr ''P'') (JStr ''B''))(''Mon'' := JNum 8)))))
          [commitRow (JStr ''Ana'') (JNum 2025) (JNum 32) (JStr ''2025-08-04'')
             (JStr ''2025-08-08T12:00:00.000Z'') 0
             ((blankEntry (JStr ''a'') (JStr ''P'') (JStr ''B''))(''Mon'' := JNum 8))])
       = [5]"
  by (simp add: saveEditRow_def changeEditing_def startEditRow_def commitRow_def js_eval)

text \<open>A fetched row carries the \<open>total\<close> column of the remote table as it is.\<close>

lemma mapFromSupabase_carries_total:
  "mapFromSupabase r ''Total'' = r ''total''
   \<and> map (mapFromSupabase r) DAYS = map r [''mon'', ''tue'', ''wed'', ''thu'', ''fri'']"
  by (simp add: mapFromSupabase_def DAYS_def)

section \<open>Totals by dimension\<close>

lemma set_firstSeen [simp]: "set (firstSeen xs) = set xs"
  by (induction xs) auto

lemma distinct_firstSeen [simp]: "distinct (firstSeen xs)"
  by (induction xs) (auto simp add: distinct_removeAll)

lemma firstSeen_snoc:
  "firstSeen (xs @ [x]) = (if x \<in> set xs then firstSeen xs else firstSeen xs @ [x])"
  by (induction xs) auto

lemma length_firstSeen: "length (firstSeen xs) = card (set xs)"
  using distinct_card [of "firstSeen xs"] by simp

lemma setAdd_firstSeen: "setAdd x (firstSeen xs) = firstSeen (xs @ [x])"
  by (simp add: setAdd_def firstSeen_snoc)

lemma map_of_keyed:
  "map_of (map (\<lambda>k. (k, A k)) ks) k = (if k \<in> set ks then Some (A k) else None)"
  by (induction ks) auto

lemma mapSet_keyed_new:
  "k \<notin> set ks \<Longrightarrow> mapSet k v (map (\<lambda>k. (k, A k)) ks) = map (\<lambda>k. (k, A k)) ks @ [(k, v)]"
  by (induction ks) auto

lemma mapSet_keyed_old:
  "distinct ks \<Longrightarrow> k \<in> set ks \<Longrightarrow>
   mapSet k v (map (\<lambda>k. (k, A k)) ks) = map (\<lambda>k'. (k', if k' = k then v else A k')) ks"
  by (induction ks) auto

text \<open>The loop shared by the aggregations: each row updates the value stored under
  its key, starting from a default when the key is new. The result lists the keys in
  the order of first appearance, each with the fold of its own rows.\<close>

lemma groupFold:
  "foldl (\<lambda>m r. mapSet (key r) (f r (mapGetOr (d (key r)) m (key r))) m) [] rows
     = map (\<lambda>k. (k, foldl (\<lambda>a r. f r a) (d k) (filter (\<lambda>r. key r = k) rows)))
           (firstSeen (map key rows))"
proof (induction rows rule: rev_induct)
  case Nil
  show ?case by simp
next
  case (snoc r rows)
  define A where "A = (\<lambda>rs k. foldl (\<lambda>a r. f r a) (d k) (filter (\<lambda>r. key r = k) rs))"
  define ks where "ks = firstSeen (map key rows)"
  define g where "g = key r"
  have ks: "set ks = key ` set rows" "distinct ks"
    by (simp_all add: ks_def)
  have IH: "foldl (\<lambda>m r. mapSet (key r) (f r (mapGetOr (d (key r)) m (key r))) m) [] rows
            = map (\<lambda>k. (k, A rows k)) ks"
    using snoc.IH by (simp add: A_def ks_def)
  have fresh: "A rows g = d g" if "g \<notin> set ks"
  proof -
    from that ks have "\<forall>x\<in>set rows. key x \<noteq> g" by (metis imageI)
    then have "filter (\<lambda>r. key r = g) rows = []"
      by (simp add: filter_empty_conv)
    then show ?thesis by (simp add: A_def)
  qed
  have got: "mapGetOr (d g) (map (\<lambda>k. (k, A rows k)) ks) g = A rows g"
    using fresh by (cases "g \<in> set ks") (simp_all add: mapGetOr_def map_of_keyed)
  have new: "f r (A rows g) = A (rows @ [r]) g"
    by (simp add: A_def g_def)
  have other: "A (rows @ [r]) k = A rows k" if "k \<noteq> g" for k
    using that by (simp add: A_def g_def)
  have step: "foldl (\<lambda>m r. mapSet (key r) (f r (mapGetOr (d (key r)) m (key r))) m) []
                (rows @ [r])
              = mapSet g (A (rows @ [r]) g) (map (\<lambda>k. (k, A rows k)) ks)"
    using got new by (simp add: IH g_def [symmetric])
  have fs: "firstSeen (map key (rows @ [r])) = (if g \<in> set ks then ks else ks @ [g])"
    by (simp add: firstSeen_snoc ks_def g_def)
  have fin: "mapSet g (A (rows @ [r]) g) (map (\<lambda>k. (k, A rows k)) ks)
             = map (\<lambda>k. (k, A (rows @ [r]) k)) (firstSeen (map key (rows @ [r])))"
  proof (cases "g \<in> set ks")
    case True
    have "mapSet g (A (rows @ [r]) g) (map (\<lambda>k. (k, A rows k)) ks)
               = map (\<lambda>k'. (k', if k' = g then A (rows @ [r]) g else A rows k')) ks"
      using ks(2) True by (rule mapSet_keyed_old)
    also have "\<dots> = map (\<lambda>k. (k, A (rows @ [r]) k)) ks"
      by (rule map_cong) (simp_all add: other)
    finally show ?thesis using fs True by simp
  next
    case False
    have same: "map (\<lambda>k. (k, A rows k)) ks = map (\<lambda>k. (k, A (rows @ [r]) k)) ks"
    proof (rule map_cong)
      fix k assume "k \<in> set ks"
      with False have "k \<noteq> g" by auto
      then show "(k, A rows k) = (k, A (rows @ [r]) k)" by (simp add: other)
    qed simp
    have a: "mapSet g (A (rows @ [r]) g) (map (\<lambda>k. (k, A (rows @ [r]) k)) ks)
               = map (\<lambda>k. (k, A (rows @ [r]) k)) ks @ [(g, A (rows @ [r]) g)]"
      using False by (rule mapSet_keyed_new)
    have b: "firstSeen (map key (rows @ [r])) = ks @ [g]"
      using fs False by simp
    show ?thesis unfolding same b a by simp
  qed
  show ?case
    unfolding step fin by (simp add: A_def)
qed


lemma aggAdd_fold:
  "foldl (\<lambda>a r. aggAdd r a) \<lparr>a_name = k, a_total = 0, a_people = [], a_projects = []\<rparr> rs
   = \<lparr>a_name = k,
      a_total = (\<Sum>r\<leftarrow>rs. numOr0 (optGet r ''Total'')),
      a_people = firstSeen (filter truthy (map (\<lambda>r. optGet r ''Person'') rs)),
      a_projects = firstSeen (filter truthy (map (\<lambda>r. optGet r ''Project'') rs))\<rparr>"
  by (induction rs rule: rev_induct) (simp_all add: aggAdd_def Let_def setAdd_firstSeen)

lemma groupStep_fold:
  "foldl (groupStep key) [] rows
   = map (\<lambda>k. (k, foldl (\<lambda>a r. aggAdd r a)
                      \<lparr>a_name = k, a_total = 0, a_people = [], a_projects = []\<rparr>
                      (filter (\<lambda>r. groupKey key r = k) rows)))
         (firstSeen (map (groupKey key) rows))"
proof -
  have "groupStep key
        = (\<lambda>m r. mapSet (groupKey key r)
                    (aggAdd r (mapGetOr \<lparr>a_name = groupKey key r, a_total = 0, a_people = [],
                                         a_projects = []\<rparr> m (groupKey key r))) m)"
    by (intro ext) (simp add: groupStep_def Let_def)
  then show ?thesis
    using groupFold [where key = "groupKey key" and f = aggAdd
        and d = "\<lambda>k. \<lparr>a_name = k, a_total = 0, a_people = [], a_projects = []\<rparr>" and rows = rows]
    by simp
qed

text \<open>
  C7. \<^verbatim>\<open>groupTotals\<close> emits one bucket for each distinct group key, in the order in
  which the keys first appear in the rows. The group key of a row is the value of the
  dimension when that value is truthy and the sentinel otherwise, so a row that is
  \<open>null\<close> or whose dimension is missing, \<open>null\<close> or the empty string falls into the
  sentinel bucket. The total of a bucket is the sum of \<^verbatim>\<open>Number(Total) || 0\<close> over
  its rows; its people and project counts are the numbers of distinct truthy \<open>Person\<close>
  and \<open>Project\<close> values among its rows. Membership does not look at \<open>Total\<close>: a row
  with total 0 joins its bucket and is counted like any other.
\<close>

theorem groupTotals_buckets:
  "groupTotals rows key =
     map (\<lambda>k. \<lparr>g_name = k,
                g_total = (\<Sum>r\<leftarrow>filter (\<lambda>r. groupKey key r = k) rows. numOr0 (optGet r ''Total'')),
                g_peopleCount = card (set (filter truthy (map (\<lambda>r. optGet r ''Person'')
                                   (filter (\<lambda>r. groupKey key r = k) rows)))),
                g_projectsCount = card (set (filter truthy (map (\<lambda>r. optGet r ''Project'')
                                   (filter (\<lambda>r. groupKey key r = k) rows))))\<rparr>)
         (firstSeen (map (groupKey key) rows))
   \<and> distinct (firstSeen (map (groupKey key) rows))
   \<and> set (firstSeen (map (groupKey key) rows)) = set (map (groupKey key) rows)
   \<and> firstSeen (map (groupKey key) (rows @ [r]))
       = (if groupKey key r \<in> set (map (groupKey key) rows)
          then firstSeen (map (groupKey key) rows)
          else firstSeen (map (groupKey key) rows) @ [groupKey key r])
   \<and> groupKey key r = (if truthy (optGet r key) then optGet r key else sentinel)
   \<and> groupKey key None = sentinel
   \<and> groupKey key (Some (ob(key := JUndefined))) = sentinel
   \<and> groupKey key (Some (ob(key := JNull))) = sentinel
   \<and> groupKey key (Some (ob(key := JStr []))) = sentinel"
proof -
  have "groupTotals rows key =
     map (\<lambda>k. \<lparr>g_name = k,
                g_total = (\<Sum>r\<leftarrow>filter (\<lambda>r. groupKey key r = k) rows. numOr0 (optGet r ''Total'')),
                g_peopleCount = card (set (filter truthy (map (\<lambda>r. optGet r ''Person'')
                                   (filter (\<lambda>r. groupKey key r = k) rows)))),
                g_projectsCount = card (set (filter truthy (map (\<lambda>r. optGet r ''Project'')
                                   (filter (\<lambda>r. groupKey key r = k) rows))))\<rparr>)
         (firstSeen (map (groupKey key) rows))"
    by (simp add: groupTotals_def groupStep_fold aggAdd_fold length_firstSeen comp_def)
  moreover have "firstSeen (map (groupKey key) (rows @ [r]))
       = (if groupKey key r \<in> set (map (groupKey key) rows)
          then firstSeen (map (groupKey key) rows)
          else firstSeen (map (groupKey key) rows) @ [groupKey key r])"
    using firstSeen_snoc [of "map (groupKey key) rows" "groupKey key r"] by simp
  ultimately show ?thesis
    by (simp add: groupKey_def orElse_def optGet_def)
qed

text \<open>Definitions to unfold when \<^verbatim>\<open>groupTotals\<close> is run on concrete rows.\<close>

lemmas dash_eval =
  groupTotals_def groupStep_def groupKey_def aggAdd_def mapGetOr_def setAdd_def sentinel_def
  optGet_def emptyObj_def orElse_def numOr0_def Let_def

text \<open>The example of the specification (A: 10, B: 5, one person each), and a row with
  total 0 beside a row without a person.\<close>

theorem groupTotals_buckets_example:
  "groupTotals [Some (emptyObj(''Person'' := JStr ''A'', ''Total'' := JNum 8)),
                Some (emptyObj(''Person'' := JStr ''A'', ''Total'' := JNum 2)),
                Some (emptyObj(''Person'' := JStr ''B'', ''Total'' := JNum 5))] ''Person''
     = [\<lparr>g_name = JStr ''A'', g_total = 10, g_peopleCount = 1, g_projectsCount = 0\<rparr>,
        \<lparr>g_name = JStr ''B'', g_total = 5, g_peopleCount = 1, g_projectsCount = 0\<rparr>]
   \<and> groupTotals [Some (emptyObj(''Person'' := JStr ''A'', ''Project'' := JStr ''X'',
                                  ''Total'' := JNum 0)),
                  Some (emptyObj(''Project'' := JStr ''Y'', ''Total'' := JNum 3))] ''Person''
     = [\<lparr>g_name = JStr ''A'', g_total = 0, g_peopleCount = 1, g_projectsCount = 1\<rparr>,
        \<lparr>g_name = sentinel, g_total = 3, g_peopleCount = 0, g_projectsCount = 1\<rparr>]"
  unfolding groupTotals_buckets [THEN conjunct1] card_set
  by (simp add: groupKey_def orElse_def optGet_def emptyObj_def numOr0_def sentinel_def)

text \<open>The same example, run through the loop itself.\<close>

lemma groupTotals_direct_example:
  "groupTotals [Some (emptyObj(''Person'' := JStr ''A'', ''Total'' := JNum 8)),
                Some (emptyObj(''Person'' := JStr ''A'', ''Total'' := JNum 2)),
                Some (emptyObj(''Person'' := JStr ''B'', ''Total'' := JNum 5))] ''Person''
     = [\<lparr>g_name = JStr ''A'', g_total = 10, g_peopleCount = 1, g_projectsCount = 0\<rparr>,
        \<lparr>g_name = JStr ''B'', g_total = 5, g_peopleCount = 1, g_projectsCount = 0\<rparr>]"
  by (simp add: dash_eval)

section \<open>The weekly series by person\<close>

lemma digitChar_not_W: "digitChar d \<noteq> CHR ''W''"
proof -
  have "d mod 10 < length ''0123456789''" by simp
  then have "digitChar d \<in> set ''0123456789''"
    unfolding digitChar_def by (rule nth_mem)
  then show ?thesis by auto
qed

lemma showNat_no_W: "CHR ''W'' \<notin> set (showNat n)"
proof (induction n rule: showNat.induct)
  case (1 n)
  show ?case
  proof (cases "n < 10")
    case True
    then show ?thesis
      using digitChar_not_W [of n] by (subst showNat.simps) auto
  next
    case False
    with 1 show ?thesis
      using digitChar_not_W [of "n mod 10"] by (subst showNat.simps) auto
  qed
qed

lemma showInt_no_W: "CHR ''W'' \<notin> set (showInt i)"
  by (simp add: showInt_def showNat_no_W)

lemma splitFrom_week:
  "CHR ''W'' \<notin> set ys \<Longrightarrow>
   splitFrom ''-W'' cur (ys @ ''-W'' @ t) = (cur @ ys) # splitFrom ''-W'' [] t"
proof (induction ys arbitrary: cur)
  case Nil
  show ?case by (simp add: startsWith_def)
next
  case (Cons c ys)
  then have "\<not> startsWith (c # ys @ ''-W'' @ t) ''-W''"
    by (cases ys) (auto simp add: startsWith_def)
  with Cons show ?case by simp
qed

lemma weekSegment_key:
  "CHR ''W'' \<notin> set ys \<Longrightarrow> weekSegment (ys @ ''-W32'') = JStr ''32''"
  using splitFrom_week [of ys "[]" "''32''"]
  by (simp add: weekSegment_def splitOn_def startsWith_def)


lemma showInt_32: "showInt 32 = ''32''"
  by (simp add: showInt_def showNat.simps digitChar_def)

lemma showInt_2025: "showInt 2025 = ''2025''"
  by (simp add: showInt_def showNat.simps digitChar_def)

lemma toWeekKey_committed_row:
  assumes "row ''Week_Start'' = JStr ''2025-08-04''" "row ''Year'' = JNum 2025"
    "row ''ISO_Week'' = JNum 32"
  shows "\<exists>ys. CHR ''W'' \<notin> set ys \<and> toWeekKey dateOf (Some row) = ys @ ''-W32''"
proof (cases "dateOf (JStr ''2025-08-04'')")
  case None
  with assms have "toWeekKey dateOf (Some row) = ''2025'' @ ''-W32''"
    by (simp add: toWeekKey_def rowDate_def optGet_def orElse_def padStart_def
        showInt_32 showInt_2025)
  moreover have "CHR ''W'' \<notin> set ''2025''" by simp
  ultimately show ?thesis by blast
next
  case (Some ym)
  with assms have "toWeekKey dateOf (Some row) = showInt (fst ym) @ ''-W32''"
    by (simp add: toWeekKey_def rowDate_def optGet_def orElse_def padStart_def
        showInt_32 split: prod.splits)
  with showInt_no_W [of "fst ym"] show ?thesis by blast
qed

text \<open>
  C4 on a committed row. Ana logs 8 hours on project P in ISO week 32 of 2025, whose
  Monday is 2025-08-04. The week label of the series is the date \<open>2025-08-04\<close>, the
  key of her hours is \<open>yyyy-W32\<close>; the label does not contain \<open>32\<close> and is not a key,
  so her series reads 0 for the only week there is and her total is 0, whatever the
  date parser and the collation are.
\<close>

theorem weeklyByPersonForProject_loses_hours:
  "weeklyByPersonForProject dateOf localeCompare
     [commitRow (JStr ''Ana'') (JNum 2025) (JNum 32) (JStr ''2025-08-04'')
        (JStr ''2025-08-08T12:00:00.000Z'') 0
        ((blankEntry (JStr ''a'') (JStr ''P'') (JStr ''B''))(''Mon'' := JNum 8))]
     (JStr ''P'')
   = Inr [\<lparr>s_person = JStr ''Ana'', s_series = [0], s_total = 0,
            s_weeksLabels = [JStr ''2025-08-04'']\<rparr>]
   \<and> numOr0 (commitRow (JStr ''Ana'') (JNum 2025) (JNum 32) (JStr ''2025-08-04'')
        (JStr ''2025-08-08T12:00:00.000Z'') 0
        ((blankEntry (JStr ''a'') (JStr ''P'') (JStr ''B''))(''Mon'' := JNum 8)) ''Total'') = 8"
proof -
  define row where "row = commitRow (JStr ''Ana'') (JNum 2025) (JNum 32) (JStr ''2025-08-04'')
        (JStr ''2025-08-08T12:00:00.000Z'') 0
        ((blankEntry (JStr ''a'') (JStr ''P'') (JStr ''B''))(''Mon'' := JNum 8))"
  have fields: "row ''Week_Start'' = JStr ''2025-08-04''" "row ''Year'' = JNum 2025"
    "row ''ISO_Week'' = JNum 32" "row ''Project'' = JStr ''P''" "row ''Person'' = JStr ''Ana''"
    "row ''Total'' = JNum 8"
    by (simp_all add: row_def commitRow_def blankEntry_def emptyObj_def orElse_def numOr0_def
        strToNumber_def trim_def)
  from toWeekKey_committed_row [OF fields(1-3), of dateOf]
  obtain ys where ys: "CHR ''W'' \<notin> set ys" and wk: "toWeekKey dateOf (Some row) = ys @ ''-W32''"
    by blast
  have seg: "weekSegment (ys @ ''-W32'') = JStr ''32''"
    using ys by (rule weekSegment_key)
  have "CHR ''W'' \<in> set (ys @ ''-W32'')" by simp
  moreover have "CHR ''W'' \<notin> set ''2025-08-04''" by simp
  ultimately have ne: "ys @ ''-W32'' \<noteq> ''2025-08-04''" by metis
  have st: "weeklyStep dateOf (JStr ''P'') ([], []) row
            = ([(JStr ''Ana'', [(ys @ ''-W32'', 8)])], [JStr ''2025-08-04''])"
    by (simp add: weeklyStep_def fields wk Let_def orElse_def setAdd_def mapGetOr_def numOr0_def)
  have at: "seriesAt [(ys @ ''-W32'', 8)] (JStr ''2025-08-04'') = Inr 0"
    using ne by (simp add: seriesAt_def seg startsWith_def mapGetOr_def Let_def)
  have "weeklyByPersonForProject dateOf localeCompare [row] (JStr ''P'')
        = Inr [\<lparr>s_person = JStr ''Ana'', s_series = [0], s_total = 0,
                 s_weeksLabels = [JStr ''2025-08-04'']\<rparr>]"
    by (simp add: weeklyByPersonForProject_def st sortBy_def at Let_def)
  moreover have "numOr0 (row ''Total'') = 8"
    by (simp add: fields numOr0_def)
  ultimately show ?thesis by (simp add: row_def)
qed

section \<open>The monthly proportion\<close>








text \<open>The comparator sort permutes its input, and with \<^verbatim>\<open>(a,b) => b.hours - a.hours\<close>
  the result is in descending order of hours.\<close>

lemma set_insertBy: "set (insertBy cmp x ys) = insert x (set ys)"
  by (induction ys) auto

lemma length_insertBy: "length (insertBy cmp x ys) = Suc (length ys)"
  by (induction ys) auto

lemma sortBy_acc:
  "set (foldl (\<lambda>acc x. insertBy cmp x acc) acc xs) = set acc \<union> set xs
   \<and> length (foldl (\<lambda>acc x. insertBy cmp x acc) acc xs) = length acc + length xs"
  by (induction xs arbitrary: acc) (auto simp add: set_insertBy length_insertBy)

lemma set_sortBy: "set (sortBy cmp xs) = set xs"
  by (simp add: sortBy_def sortBy_acc)

lemma length_sortBy: "length (sortBy cmp xs) = length xs"
  by (simp add: sortBy_def sortBy_acc)





subsection \<open>Accuracy of the percentage in double precision\<close>









subsection \<open>One month with two projects\<close>







end
